theory Spec2Isabelle
  imports Main "HOL-Library.Word"
begin

section \<open>Go data the cache handles\<close>

text \<open>
  The package \<open>encache\<close> (file \<open>cacheimpl.go\<close>) holds two cache backends and the
  key deriver. The embedding keeps the Go names: a method \<open>T.m\<close> is the constant \<open>T_m\<close>,
  its receiver is the first argument.

  \<^item> \<open>time.Time\<close> is an instant in nanoseconds on the clock \<open>time.Now\<close> reads; every
    call of \<open>time.Now()\<close> in the source is an argument \<open>now\<close> of the model.
    \<open>t.After(u)\<close> is \<open>u < t\<close>, \<open>t.Before(u)\<close> is \<open>t < u\<close>. The wall clock
    and the monotonic clock of a \<open>time.Time\<close> are one clock here, and no instant is
    out of the range of \<open>time.Time\<close>.
  \<^item> \<open>time.Duration\<close> is an \<open>int64\<close> count of nanoseconds: a 64-bit word read signed
    (\<open>sint\<close>); \<open>t.Add(d)\<close> is \<open>t + sint d\<close>.
  \<^item> a Go slice is a list option: \<open>None\<close> is the \<open>nil\<close> slice, \<open>Some []\<close> an empty
    slice that is not \<open>nil\<close>.
  \<^item> an \<open>error\<close> result is an \<open>error option\<close>: \<open>None\<close> is \<open>nil\<close>.
  \<^item> a panic is the left summand of the result.
\<close>

type_synonym Time = int
type_synonym Duration = "64 word"
type_synonym 'a slice = "'a list option"

datatype error =
    redis_Nil
  | SyntaxError
  | UnmarshalTypeError
  | OtherError string

datatype panic =
    TooManyArguments
  | ErrorInLock error
  | ErrorInUnlock error
  | OutOfNonFuncType
  | IndexOutOfRange
  | SetOnZeroValue
  | NotAssignable

text \<open>
  \<open>reflect.Type\<close>, as far as the cache looks at it: the predeclared types a decoded
  JSON document can have, slices, maps, interfaces (by their method names;
  \<open>TInterface []\<close> is \<open>interface{}\<close>), function signatures and defined (named) types
  over an underlying type.
\<close>

datatype gotype =
    TBool
  | TInt
  | TFloat64
  | TString
  | TSlice gotype
  | TMap gotype gotype
  | TInterface "string list"
  | TFunc "gotype list" "gotype list"
  | TNamed string gotype

section \<open>The local map backend\<close>

record 'v cacheEntry =
  value' :: "'v slice"
  expiryTime :: Time

record 'v MapCacheImpl =
  cache :: "string \<rightharpoonup> 'v cacheEntry"

text \<open>
  \<open>NewMapCacheImpl(size ...int)\<close>: more than one size panics; otherwise the table is
  empty (the size is a capacity hint of \<open>make\<close>).
\<close>

definition NewMapCacheImpl :: "int list \<Rightarrow> panic + 'v MapCacheImpl" where
  "NewMapCacheImpl size' =
     (if length size' > 1 then Inl TooManyArguments
      else Inr \<lparr>cache = Map.empty\<rparr>)"

text \<open>
  \<open>Get(key, _)\<close> returns \<open>(value, found, err)\<close>; the model returns the receiver as
  well, as every method does, so that what a call leaves in the table can be stated.
\<close>

definition MapCacheImpl_Get ::
  "'v MapCacheImpl \<Rightarrow> string \<Rightarrow> gotype \<Rightarrow> Time
     \<Rightarrow> ('v slice \<times> bool \<times> error option) \<times> 'v MapCacheImpl" where
  "MapCacheImpl_Get cacheImpl key fType now =
     (case cache cacheImpl key of
        Some res \<Rightarrow>
          if now < expiryTime res then ((value' res, True, None), cacheImpl)
          else ((None, False, None), cacheImpl)
      | None \<Rightarrow> ((None, False, None), cacheImpl))"

definition MapCacheImpl_Set ::
  "'v MapCacheImpl \<Rightarrow> string \<Rightarrow> 'v slice \<Rightarrow> Duration \<Rightarrow> Time
     \<Rightarrow> error option \<times> 'v MapCacheImpl" where
  "MapCacheImpl_Set cacheImpl key val expiry now =
     (None,
      cacheImpl\<lparr>cache := (cache cacheImpl)
        (key \<mapsto> \<lparr>value' = val, expiryTime = now + sint expiry\<rparr>)\<rparr>)"

text \<open>Both codec methods of the map backend are there "just to satisfy the interface".\<close>

definition MapCacheImpl_Serialize ::
  "'v MapCacheImpl \<Rightarrow> 'v slice \<Rightarrow> string \<times> error option" where
  "MapCacheImpl_Serialize cacheImpl res = ([], None)"

definition MapCacheImpl_Deserialize ::
  "'v MapCacheImpl \<Rightarrow> string \<Rightarrow> gotype \<Rightarrow> 'v slice \<times> error option" where
  "MapCacheImpl_Deserialize cacheImpl serializedResult fType = (None, None)"

text \<open>
  \<open>NewMuLockImpl\<close> and the \<open>lock\<close> and \<open>unlock\<close> methods of what it returns are
  declared outside \<open>cacheimpl.go\<close>. \<open>Expire\<close> only looks at the error each of the
  two calls returns, so the lock is the pair of these errors and a parameter of
  \<open>Expire\<close>.
\<close>

record MuLockImpl =
  lock :: "error option"
  unlock :: "error option"

text \<open>
  \<open>Expire(key, expiry)\<close>: a failed \<open>lock\<close> panics before the table is read; the
  deferred \<open>unlock\<close> runs after the body on every path, and panics when it fails.
\<close>

definition MapCacheImpl_Expire ::
  "MuLockImpl \<Rightarrow> 'v MapCacheImpl \<Rightarrow> string \<Rightarrow> Duration \<Rightarrow> Time
     \<Rightarrow> panic + (error option \<times> 'v MapCacheImpl)" where
  "MapCacheImpl_Expire muLockImpl cacheImpl key expiry now =
     (case lock muLockImpl of
        Some lockerr \<Rightarrow> Inl (ErrorInLock lockerr)
      | None \<Rightarrow>
          let body =
            (case cache cacheImpl key of
               Some cacheEntry \<Rightarrow>
                 if sint expiry \<le> 0
                 then (None, cacheImpl\<lparr>cache := (cache cacheImpl)(key := None)\<rparr>)
                 else MapCacheImpl_Set cacheImpl key (value' cacheEntry) expiry now
             | None \<Rightarrow> (None, cacheImpl))
          in (case unlock muLockImpl of
                Some unlockerr \<Rightarrow> Inl (ErrorInUnlock unlockerr)
              | None \<Rightarrow> Inr body))"

section \<open>The key deriver\<close>

text \<open>
  \<open>Key(fName, args)\<close> appends \<open>fmt.Sprintf("%v", arg.Interface())\<close> to the key for
  each argument in turn. The conversion of a value to its default text is the
  parameter \<open>Sprint\<close>; \<open>Sprint_int\<close> is what \<open>%v\<close> prints for an \<open>int\<close>: base ten,
  a minus sign for a negative number.
\<close>

definition Key :: "('v \<Rightarrow> string) \<Rightarrow> string \<Rightarrow> 'v list \<Rightarrow> string" where
  "Key Sprint fName args = foldl (\<lambda>key arg. key @ Sprint arg) fName args"

fun digits :: "nat \<Rightarrow> string" where
  "digits n =
     (if n < 10 then [''0123456789'' ! n]
      else digits (n div 10) @ [''0123456789'' ! (n mod 10)])"

definition Sprint_int :: "int \<Rightarrow> string" where
  "Sprint_int i = (if i < 0 then CHR ''-'' # digits (nat (- i)) else digits (nat i))"

section \<open>The JSON codec the remote backend calls\<close>

text \<open>
  The remote backend hands its values to \<open>json.Marshal\<close> and reads them back with
  \<open>json.Unmarshal\<close> into a \<open>[]interface{}\<close>. Both are functions of the Go library;
  they are modelled here at the two types the backend uses them at.
\<close>

subsection \<open>Marshal of a slice of reflection handles\<close>

text \<open>
  \<open>Serialize\<close> passes its \<open>[]reflect.Value\<close> to \<open>json.Marshal\<close> as it is.
  \<open>reflect.Value\<close> is a struct without an exported field and without a marshalling
  method, so every element encodes as the empty object \<open>{}\<close>, whatever value the
  handle refers to; a \<open>nil\<close> slice encodes as \<open>null\<close>. The encoder has no error for
  such input. The element type of the model is therefore any type \<open>'v\<close>.
\<close>

fun encodeElements :: "'v list \<Rightarrow> string" where
  "encodeElements [] = []"
| "encodeElements [v] = ''{}''"
| "encodeElements (v # vs) = ''{}'' @ '','' @ encodeElements vs"

definition json_Marshal :: "'v slice \<Rightarrow> error + string" where
  "json_Marshal res =
     (case res of
        None \<Rightarrow> Inr ''null''
      | Some vs \<Rightarrow> Inr (''['' @ encodeElements vs @ '']''))"

subsection \<open>Unmarshal into a slice of empty interfaces\<close>

text \<open>
  What \<open>json.Unmarshal\<close> stores in an \<open>interface{}\<close>: \<open>nil\<close> for \<open>null\<close>, a \<open>bool\<close>, a
  \<open>float64\<close> for a number, a \<open>string\<close>, a \<open>[]interface{}\<close> for an array and a
  \<open>map[string]interface{}\<close> for an object. A number and a string carry their literal
  as it stands in the text (the number unrounded, the string between its quotes with
  its escapes unexpanded), and an object its members in the order of the text: the
  claims depend on the shape and the dynamic type of a decoded value, not on the
  \<open>float64\<close> or the bytes a literal denotes.
\<close>

datatype goval =
    IfaceNil
  | IfaceBool bool
  | IfaceFloat64 string
  | IfaceString string
  | IfaceSlice "goval list"
  | IfaceMap "(string \<times> goval) list"

text \<open>
  The decoder first runs its scanner over the whole text (\<open>checkValid\<close>): a state
  machine that takes one byte at a time and keeps a stack of the arrays and objects
  it is inside. \<open>step\<close> is the scanner's state function, named as in the library
  (the four states of a unicode escape are \<open>stateInStringEscU\<close> with the number of hex
  digits read, the states inside \<open>true\<close>, \<open>false\<close> and \<open>null\<close> are \<open>stateLiteral\<close>
  with the letters still expected). So that one pass also decodes, each stack entry
  carries the members read so far, \<open>literal\<close> collects the bytes of the number or
  string being read, \<open>ended\<close> is the value that has just ended, and \<open>savedError\<close>
  records that a number was out of the range of \<open>float64\<close>.
\<close>

datatype step =
    stateBeginValue
  | stateBeginValueOrEmpty
  | stateBeginStringOrEmpty
  | stateBeginString
  | stateEndValue
  | stateEndTop
  | stateInString
  | stateInStringEsc
  | stateInStringEscU nat
  | stateNeg
  | state1
  | state0
  | stateDot
  | stateDot0
  | stateE
  | stateESign
  | stateE0
  | stateLiteral string goval
  | stateError

datatype parseState =
    parseObjectKey "(string \<times> goval) list"
  | parseObjectValue "(string \<times> goval) list" string
  | parseArrayValue "goval list"

record scanner =
  step :: step
  parseState :: "parseState list"
  literal :: string
  ended :: "goval option"
  savedError :: bool

definition isSpace :: "char \<Rightarrow> bool" where
  "isSpace c = (c = CHR '' '' \<or> c = CHR 0x09 \<or> c = CHR 0x0D \<or> c = CHR 0x0A)"

definition isDigit :: "char \<Rightarrow> bool" where
  "isDigit c = (c \<in> set ''0123456789'')"

definition isHex :: "char \<Rightarrow> bool" where
  "isHex c = (c \<in> set ''0123456789abcdefABCDEF'')"

definition maxNestingDepth :: nat where
  "maxNestingDepth = 10000"

definition scan_error :: "scanner \<Rightarrow> scanner" where
  "scan_error s = s\<lparr>step := stateError\<rparr>"

definition pushParseState :: "scanner \<Rightarrow> parseState \<Rightarrow> step \<Rightarrow> scanner" where
  "pushParseState s newParseState successState =
     (if length (newParseState # parseState s) \<le> maxNestingDepth
      then s\<lparr>parseState := newParseState # parseState s, step := successState, ended := None\<rparr>
      else scan_error (s\<lparr>parseState := newParseState # parseState s\<rparr>))"

definition popParseState :: "scanner \<Rightarrow> goval \<Rightarrow> scanner" where
  "popParseState s v =
     (let rest = tl (parseState s)
      in s\<lparr>parseState := rest, ended := Some v,
            step := (if rest = [] then stateEndTop else stateEndValue)\<rparr>)"

text \<open>
  The member an array or object receives when \<open>,\<close> or the closing bracket arrives:
  the value that has just ended, none right after the opening bracket.
\<close>

definition pending :: "goval option \<Rightarrow> goval list" where
  "pending d = (case d of None \<Rightarrow> [] | Some v \<Rightarrow> [v])"

definition keyOf :: "goval option \<Rightarrow> string" where
  "keyOf d = (case d of Some (IfaceString k) \<Rightarrow> k | _ \<Rightarrow> [])"

definition stateEndTop_step :: "scanner \<Rightarrow> char \<Rightarrow> scanner" where
  "stateEndTop_step s c = (if \<not> isSpace c then scan_error s else s)"

definition stateEndValue_step :: "scanner \<Rightarrow> char \<Rightarrow> scanner" where
  "stateEndValue_step s c =
     (case parseState s of
        [] \<Rightarrow> stateEndTop_step (s\<lparr>step := stateEndTop\<rparr>) c
      | ps # rest \<Rightarrow>
          if isSpace c then s\<lparr>step := stateEndValue\<rparr>
          else (case ps of
            parseObjectKey kvs \<Rightarrow>
              if c = CHR '':''
              then s\<lparr>parseState := parseObjectValue kvs (keyOf (ended s)) # rest,
                     step := stateBeginValue, ended := None\<rparr>
              else scan_error s
          | parseObjectValue kvs k \<Rightarrow>
              if c = CHR '',''
              then s\<lparr>parseState := parseObjectKey (kvs @ map (Pair k) (pending (ended s))) # rest,
                     step := stateBeginString, ended := None\<rparr>
              else if c = CHR ''}''
              then popParseState s (IfaceMap (kvs @ map (Pair k) (pending (ended s))))
              else scan_error s
          | parseArrayValue vs \<Rightarrow>
              if c = CHR '',''
              then s\<lparr>parseState := parseArrayValue (vs @ pending (ended s)) # rest,
                     step := stateBeginValue, ended := None\<rparr>
              else if c = CHR '']''
              then popParseState s (IfaceSlice (vs @ pending (ended s)))
              else scan_error s))"

text \<open>
  A number literal is converted with \<open>strconv.ParseFloat(s, 64)\<close>, which fails when
  the literal rounds to an infinity: when its magnitude is at least
  \<open>2^1024 - 2^970\<close>, half a unit in the last place above the largest \<open>float64\<close>.
  \<open>floatOverflows\<close> decides that on the digits of the literal: the integer \<open>m\<close> its
  digits spell and the decimal exponent \<open>e\<close> that remains.
\<close>

fun digitsValue :: "int \<Rightarrow> string \<Rightarrow> int" where
  "digitsValue acc [] = acc"
| "digitsValue acc (c # cs) = digitsValue (10 * acc + (of_char c - 48)) cs"

definition floatOverflows :: "string \<Rightarrow> bool" where
  "floatOverflows lit =
     (let unsigned = (if take 1 lit = ''-'' then drop 1 lit else lit);
          mant = takeWhile (\<lambda>c. c \<noteq> CHR ''e'' \<and> c \<noteq> CHR ''E'') unsigned;
          ex = drop 1 (dropWhile (\<lambda>c. c \<noteq> CHR ''e'' \<and> c \<noteq> CHR ''E'') unsigned);
          ipart = takeWhile isDigit mant;
          fpart = drop 1 (dropWhile isDigit mant);
          edigits = (if take 1 ex = ''-'' \<or> take 1 ex = ''+'' then drop 1 ex else ex);
          m = digitsValue 0 (ipart @ fpart);
          e = (if take 1 ex = ''-'' then - digitsValue 0 edigits else digitsValue 0 edigits)
                - int (length fpart);
          limit = 2 ^ 1024 - 2 ^ 970
      in if 0 \<le> e then limit \<le> m * 10 ^ nat e else limit * 10 ^ nat (- e) \<le> m)"

text \<open>
  A number ends at the first byte that cannot continue it; that byte is then read in
  \<open>stateEndValue\<close>.
\<close>

definition endNumber :: "scanner \<Rightarrow> char \<Rightarrow> scanner" where
  "endNumber s c =
     stateEndValue_step
       (s\<lparr>ended := Some (IfaceFloat64 (literal s)),
          savedError := (savedError s \<or> floatOverflows (literal s))\<rparr>) c"

definition accept :: "scanner \<Rightarrow> char \<Rightarrow> step \<Rightarrow> scanner" where
  "accept s c next = s\<lparr>literal := literal s @ [c], step := next\<rparr>"

definition stateBeginValue_step :: "scanner \<Rightarrow> char \<Rightarrow> scanner" where
  "stateBeginValue_step s c =
     (if isSpace c then s
      else if c = CHR ''{'' then pushParseState s (parseObjectKey []) stateBeginStringOrEmpty
      else if c = CHR ''['' then pushParseState s (parseArrayValue []) stateBeginValueOrEmpty
      else if c = CHR 0x22 then s\<lparr>step := stateInString, literal := []\<rparr>
      else if c = CHR ''-'' then s\<lparr>step := stateNeg, literal := [c]\<rparr>
      else if c = CHR ''0'' then s\<lparr>step := state0, literal := [c]\<rparr>
      else if c = CHR ''t'' then s\<lparr>step := stateLiteral ''rue'' (IfaceBool True)\<rparr>
      else if c = CHR ''f'' then s\<lparr>step := stateLiteral ''alse'' (IfaceBool False)\<rparr>
      else if c = CHR ''n'' then s\<lparr>step := stateLiteral ''ull'' IfaceNil\<rparr>
      else if c \<in> set ''123456789'' then s\<lparr>step := state1, literal := [c]\<rparr>
      else scan_error s)"

text \<open>
  One byte through the scanner. \<open>CHR 0x22\<close> is the double quote, \<open>CHR 0x5C\<close> the
  backslash. After an error the scanner stays in \<open>stateError\<close>.
\<close>

definition scan_step :: "scanner \<Rightarrow> char \<Rightarrow> scanner" where
  "scan_step s c =
     (case step s of
        stateError \<Rightarrow> s
      | stateBeginValue \<Rightarrow> stateBeginValue_step s c
      | stateBeginValueOrEmpty \<Rightarrow>
          if isSpace c then s
          else if c = CHR '']'' then stateEndValue_step s c
          else stateBeginValue_step s c
      | stateBeginStringOrEmpty \<Rightarrow>
          if isSpace c then s
          else if c = CHR ''}''
          then (case parseState s of
                  parseObjectKey kvs # rest \<Rightarrow>
                    stateEndValue_step (s\<lparr>parseState := parseObjectValue kvs [] # rest\<rparr>) c
                | _ \<Rightarrow> stateEndValue_step s c)
          else if c = CHR 0x22 then s\<lparr>step := stateInString, literal := []\<rparr>
          else scan_error s
      | stateBeginString \<Rightarrow>
          if isSpace c then s
          else if c = CHR 0x22 then s\<lparr>step := stateInString, literal := []\<rparr>
          else scan_error s
      | stateEndValue \<Rightarrow> stateEndValue_step s c
      | stateEndTop \<Rightarrow> stateEndTop_step s c
      | stateInString \<Rightarrow>
          if c = CHR 0x22
          then s\<lparr>step := stateEndValue, ended := Some (IfaceString (literal s))\<rparr>
          else if c = CHR 0x5C then accept s c stateInStringEsc
          else if of_char c < (0x20 :: nat) then scan_error s
          else accept s c stateInString
      | stateInStringEsc \<Rightarrow>
          if c \<in> set [CHR ''b'', CHR ''f'', CHR ''n'', CHR ''r'', CHR ''t'',
                        CHR 0x5C, CHR ''/'', CHR 0x22]
          then accept s c stateInString
          else if c = CHR ''u'' then accept s c (stateInStringEscU 0)
          else scan_error s
      | stateInStringEscU n \<Rightarrow>
          if isHex c
          then accept s c (if n < 3 then stateInStringEscU (Suc n) else stateInString)
          else scan_error s
      | stateNeg \<Rightarrow>
          if c = CHR ''0'' then accept s c state0
          else if c \<in> set ''123456789'' then accept s c state1
          else scan_error s
      | state1 \<Rightarrow>
          if isDigit c then accept s c state1
          else if c = CHR ''.'' then accept s c stateDot
          else if c = CHR ''e'' \<or> c = CHR ''E'' then accept s c stateE
          else endNumber s c
      | state0 \<Rightarrow>
          if c = CHR ''.'' then accept s c stateDot
          else if c = CHR ''e'' \<or> c = CHR ''E'' then accept s c stateE
          else endNumber s c
      | stateDot \<Rightarrow> if isDigit c then accept s c stateDot0 else scan_error s
      | stateDot0 \<Rightarrow>
          if isDigit c then accept s c stateDot0
          else if c = CHR ''e'' \<or> c = CHR ''E'' then accept s c stateE
          else endNumber s c
      | stateE \<Rightarrow>
          if c = CHR ''+'' \<or> c = CHR ''-'' then accept s c stateESign
          else if isDigit c then accept s c stateE0
          else scan_error s
      | stateESign \<Rightarrow> if isDigit c then accept s c stateE0 else scan_error s
      | stateE0 \<Rightarrow> if isDigit c then accept s c stateE0 else endNumber s c
      | stateLiteral rest v \<Rightarrow>
          (case rest of
             [] \<Rightarrow> scan_error s
           | [x] \<Rightarrow>
               if c = x then s\<lparr>step := stateEndValue, ended := Some v\<rparr> else scan_error s
           | x # xs \<Rightarrow> if c = x then s\<lparr>step := stateLiteral xs v\<rparr> else scan_error s))"

definition scan_reset :: scanner where
  "scan_reset =
     \<lparr>step = stateBeginValue, parseState = [], literal = [], ended = None,
      savedError = False\<rparr>"

text \<open>
  At the end of the text the scanner is given one space, which ends a number at top
  level; a text that has not reached the end of its top-level value by then is
  refused ("unexpected end of JSON input").
\<close>

definition scan_eof :: "scanner \<Rightarrow> error + scanner" where
  "scan_eof s =
     (if step s = stateError then Inl SyntaxError
      else if step s = stateEndTop then Inr s
      else (let s' = scan_step s (CHR '' '')
            in if step s' = stateEndTop then Inr s' else Inl SyntaxError))"

text \<open>
  \<open>json.Unmarshal(data, &results)\<close> with \<open>results\<close> a \<open>nil\<close> \<open>[]interface{}\<close>: a text
  that is not valid JSON gives a syntax error; \<open>null\<close> leaves the slice \<open>nil\<close>; an
  array fills it; any other top-level value, and a number out of range anywhere in
  the text, gives a type error.
\<close>

definition json_Unmarshal :: "string \<Rightarrow> error + goval slice" where
  "json_Unmarshal data =
     (case scan_eof (foldl scan_step scan_reset data) of
        Inl err \<Rightarrow> Inl err
      | Inr s \<Rightarrow>
          (case ended s of
             Some IfaceNil \<Rightarrow> if savedError s then Inl UnmarshalTypeError else Inr None
           | Some (IfaceSlice vs) \<Rightarrow>
               if savedError s then Inl UnmarshalTypeError else Inr (Some vs)
           | _ \<Rightarrow> Inl UnmarshalTypeError))"

section \<open>Reflection, as \<open>Deserialize\<close> uses it\<close>

text \<open>
  \<open>Deserialize\<close> makes a fresh value of the type \<open>fType.Out(i)\<close> and assigns the
  decoded element to it with \<open>Value.Set\<close>. The assignment follows Go's assignability:
  identical types, or identical underlying types when one of the two is not a named
  type, or an interface type the value implements. The values assigned here have one
  of the five dynamic types of a decoded document, none of which has a method, so
  they implement exactly the interfaces without methods.
\<close>

fun underlying :: "gotype \<Rightarrow> gotype" where
  "underlying (TNamed name t) = underlying t"
| "underlying t = t"

fun hasName :: "gotype \<Rightarrow> bool" where
  "hasName TBool = True"
| "hasName TInt = True"
| "hasName TFloat64 = True"
| "hasName TString = True"
| "hasName (TNamed name t) = True"
| "hasName t = False"

definition directlyAssignable :: "gotype \<Rightarrow> gotype \<Rightarrow> bool" where
  "directlyAssignable T V =
     (T = V \<or> (\<not> (hasName T \<and> hasName V) \<and> underlying T = underlying V))"

definition implements :: "gotype \<Rightarrow> gotype \<Rightarrow> bool" where
  "implements T V =
     (case underlying T of TInterface methods \<Rightarrow> methods = [] | _ \<Rightarrow> False)"

fun dynamicType :: "goval \<Rightarrow> gotype option" where
  "dynamicType IfaceNil = None"
| "dynamicType (IfaceBool b) = Some TBool"
| "dynamicType (IfaceFloat64 f) = Some TFloat64"
| "dynamicType (IfaceString s) = Some TString"
| "dynamicType (IfaceSlice vs) = Some (TSlice (TInterface []))"
| "dynamicType (IfaceMap kvs) = Some (TMap TString (TInterface []))"

text \<open>A \<open>reflect.Value\<close> that \<open>Deserialize\<close> builds: its type and the value it holds.\<close>

record Value =
  rtype :: gotype
  iface :: goval

text \<open>
  \<open>fType.Out(i)\<close> panics when \<open>fType\<close> is not a function type and when \<open>i\<close> is not
  below the number of results.
\<close>

definition Type_Out :: "gotype \<Rightarrow> nat \<Rightarrow> panic + gotype" where
  "Type_Out fType i =
     (case underlying fType of
        TFunc ins outs \<Rightarrow> if i < length outs then Inr (outs ! i) else Inl IndexOutOfRange
      | _ \<Rightarrow> Inl OutOfNonFuncType)"

text \<open>
  \<open>reflect.New(T).Elem().Set(reflect.ValueOf(x))\<close>: \<open>ValueOf\<close> of a \<open>nil\<close> interface is
  the zero \<open>Value\<close>, which \<open>Set\<close> refuses with a panic, as it refuses a value that is
  not assignable to \<open>T\<close>.
\<close>

definition Value_Set :: "gotype \<Rightarrow> goval \<Rightarrow> panic + Value" where
  "Value_Set T x =
     (case dynamicType x of
        None \<Rightarrow> Inl SetOnZeroValue
      | Some V \<Rightarrow>
          if directlyAssignable T V \<or> implements T V then Inr \<lparr>rtype = T, iface = x\<rparr>
          else Inl NotAssignable)"

section \<open>The remote store backend\<close>

text \<open>
  \<open>redis.UniversalClient\<close> is the interface of the external store. The backend calls
  three of its commands; each is a function of the store's state \<open>'s\<close>, which it
  returns with its reply: \<open>Get(ctx, key).Result()\<close> a text and an error,
  \<open>Set(ctx, key, text, expiry).Err()\<close> and \<open>Expire(ctx, key, expiry).Err()\<close> an error.
  The client is a field of the backend and a parameter of the model.
\<close>

record 's UniversalClient =
  client_Get :: "'s \<Rightarrow> string \<Rightarrow> (string \<times> error option) \<times> 's"
  client_Set :: "'s \<Rightarrow> string \<Rightarrow> string \<Rightarrow> Duration \<Rightarrow> error option \<times> 's"
  client_Expire :: "'s \<Rightarrow> string \<Rightarrow> Duration \<Rightarrow> error option \<times> 's"

record 's RedisCacheImpl =
  client :: "'s UniversalClient"

definition NewRedisCacheImpl :: "'s UniversalClient \<Rightarrow> 's RedisCacheImpl" where
  "NewRedisCacheImpl cl = \<lparr>client = cl\<rparr>"

definition RedisCacheImpl_Serialize ::
  "'s RedisCacheImpl \<Rightarrow> 'v slice \<Rightarrow> string \<times> error option" where
  "RedisCacheImpl_Serialize cacheImpl res =
     (case json_Marshal res of
        Inl err \<Rightarrow> ([], Some err)
      | Inr serializedRes \<Rightarrow> (serializedRes, None))"

definition elems :: "'a slice \<Rightarrow> 'a list" where
  "elems s = (case s of None \<Rightarrow> [] | Some xs \<Rightarrow> xs)"

text \<open>
  The loop of \<open>Deserialize\<close> over the decoded elements, \<open>i\<close> the index of the first
  one left: the first panic ends it.
\<close>

fun Deserialize_loop :: "gotype \<Rightarrow> nat \<Rightarrow> goval list \<Rightarrow> panic + Value list" where
  "Deserialize_loop fType i [] = Inr []"
| "Deserialize_loop fType i (x # results) =
     (case Type_Out fType i of
        Inl p \<Rightarrow> Inl p
      | Inr T \<Rightarrow>
          (case Value_Set T x of
             Inl p \<Rightarrow> Inl p
           | Inr v \<Rightarrow>
               (case Deserialize_loop fType (Suc i) results of
                  Inl p \<Rightarrow> Inl p
                | Inr res \<Rightarrow> Inr (v # res))))"

definition RedisCacheImpl_Deserialize ::
  "'s RedisCacheImpl \<Rightarrow> string \<Rightarrow> gotype \<Rightarrow> panic + (Value slice \<times> error option)" where
  "RedisCacheImpl_Deserialize cacheImpl serializedResult fType =
     (case json_Unmarshal serializedResult of
        Inl err \<Rightarrow> Inr (None, Some err)
      | Inr results \<Rightarrow>
          (case Deserialize_loop fType 0 (elems results) of
             Inl p \<Rightarrow> Inl p
           | Inr res \<Rightarrow> Inr (Some res, None)))"

definition RedisCacheImpl_Get ::
  "'s RedisCacheImpl \<Rightarrow> 's \<Rightarrow> string \<Rightarrow> gotype
     \<Rightarrow> (panic + (Value slice \<times> bool \<times> error option)) \<times> 's" where
  "RedisCacheImpl_Get cacheImpl store key fType =
     (case client_Get (client cacheImpl) store key of
        ((cachedResult, err), store') \<Rightarrow>
          if err \<noteq> None \<and> err \<noteq> Some redis_Nil then (Inr (None, False, err), store')
          else if err = Some redis_Nil then (Inr (None, False, None), store')
          else (case RedisCacheImpl_Deserialize cacheImpl cachedResult fType of
                  Inl p \<Rightarrow> (Inl p, store')
                | Inr (returnValue, err') \<Rightarrow>
                    if err' \<noteq> None then (Inr (None, False, err'), store')
                    else (Inr (returnValue, True, None), store')))"

definition RedisCacheImpl_Set ::
  "'s RedisCacheImpl \<Rightarrow> 's \<Rightarrow> string \<Rightarrow> 'v slice \<Rightarrow> Duration \<Rightarrow> error option \<times> 's" where
  "RedisCacheImpl_Set cacheImpl store key val expiry =
     (case RedisCacheImpl_Serialize cacheImpl val of
        (serializedResult, Some err) \<Rightarrow> (Some err, store)
      | (serializedResult, None) \<Rightarrow>
          client_Set (client cacheImpl) store key serializedResult expiry)"

definition RedisCacheImpl_PeriodicExpire ::
  "'s RedisCacheImpl \<Rightarrow> 's \<Rightarrow> Duration \<Rightarrow> 's" where
  "RedisCacheImpl_PeriodicExpire cacheImpl store runOnDuration = store"

definition RedisCacheImpl_Expire ::
  "'s RedisCacheImpl \<Rightarrow> 's \<Rightarrow> string \<Rightarrow> Duration \<Rightarrow> error option \<times> 's" where
  "RedisCacheImpl_Expire cacheImpl store key expiry =
     client_Expire (client cacheImpl) store key expiry"

text \<open>
  A store for the examples: a table from keys to texts that answers \<open>Get\<close> with the
  text the last \<open>Set\<close> of the key wrote, and with \<open>redis.Nil\<close> for a key never set. It
  has no clock: it stands for a store within the time to live of what it holds.
\<close>

definition memoryClient :: "(string \<rightharpoonup> string) UniversalClient" where
  "memoryClient =
     \<lparr>client_Get = (\<lambda>store key.
        case store key of
          None \<Rightarrow> (([], Some redis_Nil), store)
        | Some text \<Rightarrow> ((text, None), store)),
      client_Set = (\<lambda>store key text expiration. (None, store(key \<mapsto> text))),
      client_Expire = (\<lambda>store key expiration. (None, store))\<rparr>"

section \<open>Properties of the local map backend\<close>

text \<open>
  C2. \<open>Get\<close> of the local map backend reports \<open>found\<close> exactly when the key is in the
  table and its expiry time is strictly after the current time, and then returns the
  stored value; otherwise the value is \<open>nil\<close> and \<open>found\<close> is false. The error is
  \<open>nil\<close> in every case. On the table \<open>NewMapCacheImpl\<close> returns, where no key was
  written, \<open>Get\<close> answers \<open>(nil, false, nil)\<close>.
\<close>

theorem MapCacheImpl_Get_found_iff:
  assumes "MapCacheImpl_Get cacheImpl key fType now = ((v, found, err), cacheImpl')"
  shows "(found \<longleftrightarrow> (\<exists>res. cache cacheImpl key = Some res \<and> now < expiryTime res))
       \<and> (found \<longrightarrow> (\<exists>res. cache cacheImpl key = Some res \<and> v = value' res))
       \<and> (\<not> found \<longrightarrow> v = None)
       \<and> err = None
       \<and> (\<forall>size' fresh. NewMapCacheImpl size' = Inr fresh \<longrightarrow>
             MapCacheImpl_Get fresh key fType now = ((None, False, None), fresh))"
  using assms
  by (auto simp: MapCacheImpl_Get_def NewMapCacheImpl_def split: option.splits if_splits)

theorem MapCacheImpl_Get_found_iff_witness:
  "MapCacheImpl_Get \<lparr>cache = [''k'' \<mapsto> \<lparr>value' = Some [1::int], expiryTime = 10\<rparr>]\<rparr> ''k'' TInt 9
     = ((Some [1], True, None), \<lparr>cache = [''k'' \<mapsto> \<lparr>value' = Some [1::int], expiryTime = 10\<rparr>]\<rparr>)
   \<and> (\<exists>res. [''k'' \<mapsto> \<lparr>value' = Some [1::int], expiryTime = 10\<rparr>] ''k'' = Some res \<and> 9 < expiryTime res)
   \<and> fst (MapCacheImpl_Get \<lparr>cache = [''k'' \<mapsto> \<lparr>value' = Some [1::int], expiryTime = 10\<rparr>]\<rparr> ''k'' TInt 10)
       = (None, False, None)
   \<and> fst (MapCacheImpl_Get \<lparr>cache = [''k'' \<mapsto> \<lparr>value' = Some [1::int], expiryTime = 10\<rparr>]\<rparr> ''j'' TInt 9)
       = (None, False, None)
   \<and> NewMapCacheImpl [16] = Inr \<lparr>cache = (Map.empty :: string \<rightharpoonup> int cacheEntry)\<rparr>
   \<and> MapCacheImpl_Get \<lparr>cache = (Map.empty :: string \<rightharpoonup> int cacheEntry)\<rparr> ''k'' TInt 9
       = ((None, False, None), \<lparr>cache = Map.empty\<rparr>)"
proof -
  let ?c = "\<lparr>cache = [''k'' \<mapsto> \<lparr>value' = Some [1::int], expiryTime = 10\<rparr>]\<rparr>"
  have g: "MapCacheImpl_Get ?c ''k'' TInt 9 = ((Some [1], True, None), ?c)"
    by (simp add: MapCacheImpl_Get_def)
  have n: "NewMapCacheImpl [16] = Inr \<lparr>cache = (Map.empty :: string \<rightharpoonup> int cacheEntry)\<rparr>"
    by (simp add: NewMapCacheImpl_def)
  from MapCacheImpl_Get_found_iff [OF g] g n show ?thesis
    by (simp add: MapCacheImpl_Get_def)
qed

text \<open>
  C9. \<open>Get\<close> of the local map backend leaves the table as it found it; an entry that
  has expired and is still in the table is reported as not found and stays in the
  table.
\<close>

theorem MapCacheImpl_Get_frame:
  "snd (MapCacheImpl_Get cacheImpl key fType now) = cacheImpl
   \<and> (\<forall>res. cache cacheImpl key = Some res \<and> expiryTime res \<le> now \<longrightarrow>
         fst (MapCacheImpl_Get cacheImpl key fType now) = (None, False, None)
         \<and> cache (snd (MapCacheImpl_Get cacheImpl key fType now)) key = Some res)"
  by (auto simp: MapCacheImpl_Get_def split: option.splits)

theorem MapCacheImpl_Get_frame_witness:
  "snd (MapCacheImpl_Get \<lparr>cache = [''k'' \<mapsto> \<lparr>value' = Some [1::int], expiryTime = 10\<rparr>]\<rparr> ''k'' TInt 11)
     = \<lparr>cache = [''k'' \<mapsto> \<lparr>value' = Some [1::int], expiryTime = 10\<rparr>]\<rparr>
   \<and> fst (MapCacheImpl_Get \<lparr>cache = [''k'' \<mapsto> \<lparr>value' = Some [1::int], expiryTime = 10\<rparr>]\<rparr> ''k'' TInt 11)
     = (None, False, None)
   \<and> cache (snd (MapCacheImpl_Get \<lparr>cache = [''k'' \<mapsto> \<lparr>value' = Some [1::int], expiryTime = 10\<rparr>]\<rparr> ''k'' TInt 11)) ''k''
     = Some \<lparr>value' = Some [1::int], expiryTime = 10\<rparr>"
  using MapCacheImpl_Get_frame
    [of "\<lparr>cache = [''k'' \<mapsto> \<lparr>value' = Some [1::int], expiryTime = 10\<rparr>]\<rparr>" "''k''" TInt 11]
  by simp

text \<open>
  C10. \<open>Serialize\<close> of the local map backend returns the empty string and a \<open>nil\<close>
  error for every input, and its \<open>Deserialize\<close> a \<open>nil\<close> value list and a \<open>nil\<close>
  error: neither encodes or rebuilds anything.
\<close>

theorem MapCacheImpl_codec_stubs:
  "MapCacheImpl_Serialize cacheImpl res = ('''', None)
   \<and> MapCacheImpl_Deserialize cacheImpl serializedResult fType = (None, None)"
  by (simp add: MapCacheImpl_Serialize_def MapCacheImpl_Deserialize_def)

text \<open>
  C5. \<open>Expire(key, ttl)\<close> of the local map backend, when the lock and the unlock
  succeed: an absent key changes nothing and the call returns \<open>nil\<close>; a present key
  with \<open>ttl \<le> 0\<close> is deleted; a present key with \<open>ttl > 0\<close> is stored again with the
  same value and the expiry \<open>now + ttl\<close>.
\<close>

theorem MapCacheImpl_Expire_cases:
  assumes "lock muLockImpl = None" and "unlock muLockImpl = None"
  shows "(cache cacheImpl key = None \<longrightarrow>
            MapCacheImpl_Expire muLockImpl cacheImpl key ttl now = Inr (None, cacheImpl))
       \<and> (\<forall>entry. cache cacheImpl key = Some entry \<and> sint ttl \<le> 0 \<longrightarrow>
            MapCacheImpl_Expire muLockImpl cacheImpl key ttl now
              = Inr (None, cacheImpl\<lparr>cache := (cache cacheImpl)(key := None)\<rparr>))
       \<and> (\<forall>entry. cache cacheImpl key = Some entry \<and> 0 < sint ttl \<longrightarrow>
            MapCacheImpl_Expire muLockImpl cacheImpl key ttl now
              = Inr (None, cacheImpl\<lparr>cache := (cache cacheImpl)
                  (key \<mapsto> \<lparr>value' = value' entry, expiryTime = now + sint ttl\<rparr>)\<rparr>))"
  using assms
  by (auto simp: MapCacheImpl_Expire_def MapCacheImpl_Set_def)

theorem MapCacheImpl_Expire_cases_witness:
  "MapCacheImpl_Expire \<lparr>lock = None, unlock = None\<rparr>
      \<lparr>cache = [''k'' \<mapsto> \<lparr>value' = Some [1::int], expiryTime = 10\<rparr>]\<rparr> ''j'' 5 7
     = Inr (None, \<lparr>cache = [''k'' \<mapsto> \<lparr>value' = Some [1::int], expiryTime = 10\<rparr>]\<rparr>)
   \<and> MapCacheImpl_Expire \<lparr>lock = None, unlock = None\<rparr>
      \<lparr>cache = [''k'' \<mapsto> \<lparr>value' = Some [1::int], expiryTime = 10\<rparr>]\<rparr> ''k'' 0 7
     = Inr (None, \<lparr>cache = Map.empty\<rparr>)
   \<and> MapCacheImpl_Expire \<lparr>lock = None, unlock = None\<rparr>
      \<lparr>cache = [''k'' \<mapsto> \<lparr>value' = Some [1::int], expiryTime = 10\<rparr>]\<rparr> ''k'' 5 7
     = Inr (None, \<lparr>cache = [''k'' \<mapsto> \<lparr>value' = Some [1::int], expiryTime = 12\<rparr>]\<rparr>)"
  using MapCacheImpl_Expire_cases
    [of "\<lparr>lock = None, unlock = None\<rparr>"
        "\<lparr>cache = [''k'' \<mapsto> \<lparr>value' = Some [1::int], expiryTime = 10\<rparr>]\<rparr>" _ _ 7]
  by (simp add: MapCacheImpl_Expire_def MapCacheImpl_Set_def)

section \<open>Properties of the key deriver\<close>

text \<open>
  C8. \<open>Key(fName, args)\<close> is the function name followed by the default text of each
  argument, in argument order, with nothing between them. So equal names and equal
  argument lists give equal keys, and the order of the arguments matters:
  \<open>Key("Add", [1, 2])\<close> equals itself and differs from \<open>Key("Add", [2, 1])\<close>.
\<close>

theorem Key_concat:
  "Key Sprint fName args = fName @ concat (map Sprint args)
   \<and> (fName = fName' \<and> args = args' \<longrightarrow> Key Sprint fName args = Key Sprint fName' args')
   \<and> Key Sprint_int ''Add'' [1, 2] = Key Sprint_int ''Add'' [1, 2]
   \<and> Key Sprint_int ''Add'' [1, 2] \<noteq> Key Sprint_int ''Add'' [2, 1]"
proof -
  have "foldl (\<lambda>key arg. key @ Sprint arg) acc args = acc @ concat (map Sprint args)" for acc
    by (induction args arbitrary: acc) simp_all
  then have "Key Sprint fName args = fName @ concat (map Sprint args)"
    by (simp add: Key_def)
  moreover have "Key Sprint_int ''Add'' [1, 2] \<noteq> Key Sprint_int ''Add'' [2, 1]"
    by (simp add: Key_def Sprint_int_def)
  ultimately show ?thesis by simp
qed

theorem Key_concat_witness:
  "Key Sprint_int ''Add'' [1, 2] = ''Add12'' \<and> Key Sprint_int ''Add'' [2, 1] = ''Add21''
   \<and> Key Sprint_int ''f'' [-30, 407] = ''f-30407''"
  using Key_concat [of Sprint_int "''Add''" "[1, 2]" "''Add''" "[1, 2]"]
    Key_concat [of Sprint_int "''Add''" "[2, 1]" "''Add''" "[2, 1]"]
    Key_concat [of Sprint_int "''f''" "[-30, 407]" "''f''" "[-30, 407]"]
  by (simp add: Sprint_int_def)

section \<open>Facts about the decoder and the loop of \<open>Deserialize\<close>\<close>

lemma json_Unmarshal_empty_array: "json_Unmarshal ''[]'' = Inr (Some [])"
  by code_simp

lemma json_Unmarshal_one_object: "json_Unmarshal ''[{}]'' = Inr (Some [IfaceMap []])"
  by code_simp


lemma json_Unmarshal_two_numbers:
  "json_Unmarshal ''[1,2]'' = Inr (Some [IfaceFloat64 ''1'', IfaceFloat64 ''2''])"
  by code_simp

lemma json_Unmarshal_truncated: "json_Unmarshal ''[1,'' = Inl SyntaxError"
  by code_simp

lemma json_Unmarshal_object: "json_Unmarshal ''{}'' = Inl UnmarshalTypeError"
  by code_simp

lemma encodeElements_map: "encodeElements (map f vs) = encodeElements vs"
  by (induction vs rule: encodeElements.induct) simp_all

lemma Value_Set_Inr: "Value_Set T x = Inr v \<Longrightarrow> v = \<lparr>rtype = T, iface = x\<rparr>"
  by (auto simp: Value_Set_def split: option.splits if_splits)

lemma Deserialize_loop_short:
  assumes "underlying fType = TFunc ins outs"
  shows "i + length xs \<le> length outs \<Longrightarrow>
         (\<forall>j < length xs. \<exists>v. Value_Set (outs ! (i + j)) (xs ! j) = Inr v) \<Longrightarrow>
         Deserialize_loop fType i xs
           = Inr (map (\<lambda>(T, x). \<lparr>rtype = T, iface = x\<rparr>) (zip (drop i outs) xs))"
proof (induction xs arbitrary: i)
  case Nil
  then show ?case by simp
next
  case (Cons x xs)
  from Cons.prems(1) have i: "i < length outs" by simp
  from Cons.prems(2) [rule_format, of 0] obtain v where v: "Value_Set (outs ! i) x = Inr v"
    by auto
  have tail: "\<forall>j < length xs. \<exists>v. Value_Set (outs ! (Suc i + j)) (xs ! j) = Inr v"
  proof (intro allI impI)
    fix j assume "j < length xs"
    then have "Suc j < length (x # xs)" by simp
    from Cons.prems(2) [rule_format, OF this] show "\<exists>v. Value_Set (outs ! (Suc i + j)) (xs ! j) = Inr v"
      by simp
  qed
  from Cons.prems(1) have "Suc i + length xs \<le> length outs" by simp
  from Cons.IH [OF this tail]
  have rest: "Deserialize_loop fType (Suc i) xs
        = Inr (map (\<lambda>(T, x). \<lparr>rtype = T, iface = x\<rparr>) (zip (drop (Suc i) outs) xs))" .
  have d: "drop i outs = outs ! i # drop (Suc i) outs"
    using i by (simp add: Cons_nth_drop_Suc)
  show ?case
    using assms i v rest Value_Set_Inr [OF v] by (simp add: Type_Out_def d)
qed

lemma Deserialize_loop_long:
  assumes "underlying fType = TFunc ins outs"
  shows "i \<le> length outs \<Longrightarrow> length outs < i + length xs \<Longrightarrow>
         \<exists>p. Deserialize_loop fType i xs = Inl p"
proof (induction xs arbitrary: i)
  case Nil
  then show ?case by simp
next
  case (Cons x xs)
  show ?case
  proof (cases "i < length outs")
    case False
    then show ?thesis using assms by (simp add: Type_Out_def)
  next
    case True
    then have le: "Suc i \<le> length outs" by simp
    from Cons.prems have "length outs < Suc i + length xs" by simp
    from Cons.IH [OF le this] obtain p where "Deserialize_loop fType (Suc i) xs = Inl p" ..
    then show ?thesis using assms True
      by (simp add: Type_Out_def split: sum.splits)
  qed
qed

section \<open>Properties of the remote store backend\<close>




text \<open>
  C6, as amended. \<open>Deserialize\<close> of the remote store backend returns an error exactly
  when \<open>json.Unmarshal\<close> refuses the text, and then returns that error with a \<open>nil\<close>
  list. The arity is not checked: when the decoded sequence is no longer than the
  result list of the signature and each element can be assigned to the type at its
  position, the elements are returned without an error, however many the signature
  has; when it is longer, the call panics and returns nothing.
\<close>

theorem RedisCacheImpl_Deserialize_errors:
  "(\<forall>err. json_Unmarshal text = Inl err \<longrightarrow>
       RedisCacheImpl_Deserialize cacheImpl text fType = Inr (None, Some err))
   \<and> (\<forall>res err. RedisCacheImpl_Deserialize cacheImpl text fType = Inr (res, Some err) \<longrightarrow>
       json_Unmarshal text = Inl err \<and> res = None)
   \<and> (\<forall>results ins outs.
         json_Unmarshal text = Inr results \<and> underlying fType = TFunc ins outs
         \<and> length (elems results) \<le> length outs
         \<and> (\<forall>j < length (elems results). \<exists>v. Value_Set (outs ! j) (elems results ! j) = Inr v) \<longrightarrow>
       RedisCacheImpl_Deserialize cacheImpl text fType
         = Inr (Some (map (\<lambda>(T, x). \<lparr>rtype = T, iface = x\<rparr>) (zip outs (elems results))), None))
   \<and> (\<forall>results ins outs.
         json_Unmarshal text = Inr results \<and> underlying fType = TFunc ins outs
         \<and> length outs < length (elems results) \<longrightarrow>
       (\<exists>p. RedisCacheImpl_Deserialize cacheImpl text fType = Inl p))"
proof (intro conjI allI impI)
  fix err assume "json_Unmarshal text = Inl err"
  then show "RedisCacheImpl_Deserialize cacheImpl text fType = Inr (None, Some err)"
    by (simp add: RedisCacheImpl_Deserialize_def)
next
  fix res err
  assume a: "RedisCacheImpl_Deserialize cacheImpl text fType = Inr (res, Some err)"
  then show "json_Unmarshal text = Inl err"
    by (auto simp: RedisCacheImpl_Deserialize_def split: sum.splits)
  from a show "res = None"
    by (auto simp: RedisCacheImpl_Deserialize_def split: sum.splits)
next
  fix results ins outs
  assume a: "json_Unmarshal text = Inr results \<and> underlying fType = TFunc ins outs
         \<and> length (elems results) \<le> length outs
         \<and> (\<forall>j < length (elems results). \<exists>v. Value_Set (outs ! j) (elems results ! j) = Inr v)"
  then have "Deserialize_loop fType 0 (elems results)
      = Inr (map (\<lambda>(T, x). \<lparr>rtype = T, iface = x\<rparr>) (zip (drop 0 outs) (elems results)))"
    by (intro Deserialize_loop_short [of fType ins outs]) simp_all
  with a show "RedisCacheImpl_Deserialize cacheImpl text fType
         = Inr (Some (map (\<lambda>(T, x). \<lparr>rtype = T, iface = x\<rparr>) (zip outs (elems results))), None)"
    by (simp add: RedisCacheImpl_Deserialize_def)
next
  fix results ins outs
  assume a: "json_Unmarshal text = Inr results \<and> underlying fType = TFunc ins outs
         \<and> length outs < length (elems results)"
  then have "\<exists>p. Deserialize_loop fType 0 (elems results) = Inl p"
    by (intro Deserialize_loop_long [of fType ins outs]) simp_all
  with a show "\<exists>p. RedisCacheImpl_Deserialize cacheImpl text fType = Inl p"
    by (auto simp: RedisCacheImpl_Deserialize_def)
qed

theorem RedisCacheImpl_Deserialize_errors_witness:
  "RedisCacheImpl_Deserialize (NewRedisCacheImpl memoryClient) ''[1,'' (TFunc [] [TFloat64])
     = Inr (None, Some SyntaxError)
   \<and> RedisCacheImpl_Deserialize (NewRedisCacheImpl memoryClient) ''{}'' (TFunc [] [TFloat64])
     = Inr (None, Some UnmarshalTypeError)
   \<and> RedisCacheImpl_Deserialize (NewRedisCacheImpl memoryClient) ''[1,2]''
       (TFunc [] [TFloat64, TInterface [], TString])
     = Inr (Some [\<lparr>rtype = TFloat64, iface = IfaceFloat64 ''1''\<rparr>,
                  \<lparr>rtype = TInterface [], iface = IfaceFloat64 ''2''\<rparr>], None)
   \<and> (\<exists>p. RedisCacheImpl_Deserialize (NewRedisCacheImpl memoryClient) ''[1,2]''
       (TFunc [] [TFloat64]) = Inl p)"
proof -
  let ?c = "NewRedisCacheImpl memoryClient"
  note t1 = RedisCacheImpl_Deserialize_errors [of "''[1,''" ?c "TFunc [] [TFloat64]"]
  note t2 = RedisCacheImpl_Deserialize_errors [of "''{}''" ?c "TFunc [] [TFloat64]"]
  note t3 = RedisCacheImpl_Deserialize_errors
    [of "''[1,2]''" ?c "TFunc [] [TFloat64, TInterface [], TString]"]
  note t4 = RedisCacheImpl_Deserialize_errors [of "''[1,2]''" ?c "TFunc [] [TFloat64]"]
  have a: "RedisCacheImpl_Deserialize ?c ''[1,'' (TFunc [] [TFloat64]) = Inr (None, Some SyntaxError)"
    using t1 json_Unmarshal_truncated by simp
  have b: "RedisCacheImpl_Deserialize ?c ''{}'' (TFunc [] [TFloat64])
      = Inr (None, Some UnmarshalTypeError)"
    using t2 json_Unmarshal_object by simp
  have set: "\<forall>j<2. \<exists>v. Value_Set ([TFloat64, TInterface [], TString] ! j)
      ([IfaceFloat64 ''1'', IfaceFloat64 ''2''] ! j) = Inr v"
    by (auto simp: less_2_cases_iff Value_Set_def directlyAssignable_def implements_def)
  have c: "RedisCacheImpl_Deserialize ?c ''[1,2]'' (TFunc [] [TFloat64, TInterface [], TString])
     = Inr (Some [\<lparr>rtype = TFloat64, iface = IfaceFloat64 ''1''\<rparr>,
                  \<lparr>rtype = TInterface [], iface = IfaceFloat64 ''2''\<rparr>], None)"
    using t3 json_Unmarshal_two_numbers set by (simp add: elems_def)
  have d: "\<exists>p. RedisCacheImpl_Deserialize ?c ''[1,2]'' (TFunc [] [TFloat64]) = Inl p"
    using t4 json_Unmarshal_two_numbers by (simp add: elems_def)
  from a b c d show ?thesis by blast
qed

text \<open>
  C6 as the claim states it fails: the text \<open>[]\<close> decodes to no element, the
  signature \<open>func() float64\<close> has one result, and \<open>Deserialize\<close> returns the empty
  list and a \<open>nil\<close> error; the text \<open>[1,2]\<close> has one element too many for the same
  signature, and the call panics in \<open>Out(1)\<close> instead of returning an error.
\<close>

theorem RedisCacheImpl_Deserialize_arity_counterexample:
  "RedisCacheImpl_Deserialize (NewRedisCacheImpl memoryClient) ''[]'' (TFunc [] [TFloat64])
     = Inr (Some [], None)
   \<and> RedisCacheImpl_Deserialize (NewRedisCacheImpl memoryClient) ''[1,2]'' (TFunc [] [TFloat64])
     = Inl IndexOutOfRange"
  by (simp add: RedisCacheImpl_Deserialize_def json_Unmarshal_empty_array
      json_Unmarshal_two_numbers elems_def Type_Out_def Value_Set_def directlyAssignable_def
      implements_def)

text \<open>
  C3. The round trip of the remote backend's codec. The text \<open>Serialize\<close> writes
  does not depend on the values in the list: replacing every value by another
  (\<open>map f\<close>) gives the same text. At two value lists: \<open>Serialize\<close>
  writes \<open>[{}]\<close> for the one-element list holding the string \<open>hello\<close> (the result of
  a \<open>func() interface{}\<close>) and for the one holding the integer 1. \<open>Deserialize\<close> of
  that text returns an empty map for the signature \<open>func() interface{}\<close>, not the
  string, and panics for \<open>func() int\<close>.
\<close>

theorem RedisCacheImpl_codec_not_roundtrip:
  "RedisCacheImpl_Serialize cacheImpl (Some (map f vs)) = RedisCacheImpl_Serialize cacheImpl (Some vs)
   \<and> RedisCacheImpl_Serialize (NewRedisCacheImpl memoryClient)
       (Some [\<lparr>rtype = TInterface [], iface = IfaceString ''hello''\<rparr>])
     = (''[{}]'', None)
   \<and> RedisCacheImpl_Deserialize (NewRedisCacheImpl memoryClient) ''[{}]'' (TFunc [] [TInterface []])
     = Inr (Some [\<lparr>rtype = TInterface [], iface = IfaceMap []\<rparr>], None)
   \<and> RedisCacheImpl_Serialize (NewRedisCacheImpl memoryClient) (Some [1 :: int])
     = (''[{}]'', None)
   \<and> RedisCacheImpl_Deserialize (NewRedisCacheImpl memoryClient) ''[{}]'' (TFunc [] [TInt])
     = Inl NotAssignable"
  by (simp add: RedisCacheImpl_Serialize_def json_Marshal_def RedisCacheImpl_Deserialize_def
      json_Unmarshal_one_object elems_def Type_Out_def Value_Set_def directlyAssignable_def
      implements_def encodeElements_map)

section \<open>Set followed by Get\<close>

text \<open>
  On the local map backend a value set with a positive time to live is found, with
  the value list that was set, by a \<open>Get\<close> at the same instant and at every later
  instant before the expiry.
\<close>

lemma MapCacheImpl_Set_then_Get:
  assumes "0 < sint ttl"
  shows "fst (MapCacheImpl_Set cacheImpl key val ttl now) = None
       \<and> fst (MapCacheImpl_Get (snd (MapCacheImpl_Set cacheImpl key val ttl now)) key fType now)
           = (val, True, None)
       \<and> (\<forall>now'. now \<le> now' \<and> now' < now + sint ttl \<longrightarrow>
            fst (MapCacheImpl_Get (snd (MapCacheImpl_Set cacheImpl key val ttl now)) key fType now')
              = (val, True, None))"
  using assms by (simp add: MapCacheImpl_Set_def MapCacheImpl_Get_def)

text \<open>
  C1. \<open>Set\<close> followed by \<open>Get\<close> on the remote store backend, over a store that
  returns the text it was given, with a time to live of one second: the string
  \<open>hello\<close> set for a \<open>func() interface{}\<close> comes back as an empty map, and \<open>Get\<close>
  panics after the integer 1 was set for a \<open>func() int\<close>.
\<close>

theorem RedisCacheImpl_Set_then_Get_loses_values:
  "fst (RedisCacheImpl_Get (NewRedisCacheImpl memoryClient)
     (snd (RedisCacheImpl_Set (NewRedisCacheImpl memoryClient) Map.empty ''k''
        (Some [\<lparr>rtype = TInterface [], iface = IfaceString ''hello''\<rparr>]) 1000000000))
     ''k'' (TFunc [] [TInterface []]))
   = Inr (Some [\<lparr>rtype = TInterface [], iface = IfaceMap []\<rparr>], True, None)
   \<and> fst (RedisCacheImpl_Get (NewRedisCacheImpl memoryClient)
     (snd (RedisCacheImpl_Set (NewRedisCacheImpl memoryClient) Map.empty ''k''
        (Some [1 :: int]) 1000000000))
     ''k'' (TFunc [] [TInt]))
   = Inl NotAssignable"
  by (simp add: RedisCacheImpl_Get_def RedisCacheImpl_Set_def NewRedisCacheImpl_def memoryClient_def
      RedisCacheImpl_Serialize_def json_Marshal_def RedisCacheImpl_Deserialize_def
      json_Unmarshal_one_object elems_def Type_Out_def Value_Set_def directlyAssignable_def
      implements_def)

section \<open>Times to live that are not positive\<close>

text \<open>
  C7, as amended. On the local map backend the key is not in the table after
  \<open>Expire\<close> with \<open>ttl \<le> 0\<close>. \<open>Set\<close> with \<open>ttl \<le> 0\<close> deletes nothing: it stores an entry that
  has expired already, which stays in the table and which \<open>Get\<close> reports as not found
  at that instant and at every later one. Whatever the \<open>ttl\<close>, the entry that \<open>Set\<close>
  or \<open>Expire\<close> stores is not found from the instant \<open>now + ttl\<close> on, so no \<open>ttl\<close>
  caches an entry without expiry. The remote store backend passes the \<open>ttl\<close> of
  \<open>Set\<close> and of \<open>Expire\<close> to the store as it is.
\<close>

theorem ttl_not_positive:
  "(lock muLockImpl = None \<and> unlock muLockImpl = None \<and> sint ttl \<le> 0 \<longrightarrow>
      (\<exists>cacheImpl'. MapCacheImpl_Expire muLockImpl cacheImpl key ttl now = Inr (None, cacheImpl')
         \<and> cache cacheImpl' key = None))
   \<and> (sint ttl \<le> 0 \<longrightarrow>
        cache (snd (MapCacheImpl_Set cacheImpl key val ttl now)) key
          = Some \<lparr>value' = val, expiryTime = now + sint ttl\<rparr>
        \<and> (\<forall>now'. now \<le> now' \<longrightarrow>
             fst (MapCacheImpl_Get (snd (MapCacheImpl_Set cacheImpl key val ttl now)) key fType now')
               = (None, False, None)))
   \<and> (\<forall>now'. now + sint ttl \<le> now' \<longrightarrow>
        fst (MapCacheImpl_Get (snd (MapCacheImpl_Set cacheImpl key val ttl now)) key fType now')
          = (None, False, None))
   \<and> (\<forall>cacheImpl' now'. MapCacheImpl_Expire muLockImpl cacheImpl key ttl now = Inr (None, cacheImpl')
        \<and> now + sint ttl \<le> now' \<longrightarrow>
        fst (MapCacheImpl_Get cacheImpl' key fType now') = (None, False, None))
   \<and> RedisCacheImpl_Set remote store key val ttl
        = client_Set (client remote) store key (fst (RedisCacheImpl_Serialize remote val)) ttl
   \<and> RedisCacheImpl_Expire remote store key ttl = client_Expire (client remote) store key ttl"
  by (auto simp: MapCacheImpl_Expire_def MapCacheImpl_Set_def MapCacheImpl_Get_def
      RedisCacheImpl_Set_def RedisCacheImpl_Serialize_def json_Marshal_def RedisCacheImpl_Expire_def
      split: option.splits if_splits)

theorem ttl_not_positive_witness:
  "MapCacheImpl_Expire \<lparr>lock = None, unlock = None\<rparr>
      \<lparr>cache = [''k'' \<mapsto> \<lparr>value' = Some [1::int], expiryTime = 10\<rparr>]\<rparr> ''k'' (- 1) 7
     = Inr (None, \<lparr>cache = Map.empty\<rparr>)
   \<and> cache (snd (MapCacheImpl_Set \<lparr>cache = Map.empty\<rparr> ''k'' (Some [1::int]) (- 1) 7)) ''k''
     = Some \<lparr>value' = Some [1], expiryTime = 6\<rparr>
   \<and> fst (MapCacheImpl_Get (snd (MapCacheImpl_Set \<lparr>cache = Map.empty\<rparr> ''k'' (Some [1::int]) (- 1) 7))
        ''k'' TInt 7) = (None, False, None)
   \<and> fst (MapCacheImpl_Get (snd (MapCacheImpl_Set \<lparr>cache = Map.empty\<rparr> ''k'' (Some [1::int]) 5 7))
        ''k'' TInt 12) = (None, False, None)
   \<and> MapCacheImpl_Expire \<lparr>lock = None, unlock = None\<rparr>
      \<lparr>cache = [''k'' \<mapsto> \<lparr>value' = Some [1::int], expiryTime = 10\<rparr>]\<rparr> ''k'' 5 7
     = Inr (None, \<lparr>cache = [''k'' \<mapsto> \<lparr>value' = Some [1::int], expiryTime = 12\<rparr>]\<rparr>)
   \<and> fst (MapCacheImpl_Get \<lparr>cache = [''k'' \<mapsto> \<lparr>value' = Some [1::int], expiryTime = 12\<rparr>]\<rparr>
        ''k'' TInt 12) = (None, False, None)"
  using ttl_not_positive
    [where muLockImpl = "\<lparr>lock = None, unlock = None\<rparr>" and ttl = "- 1"
       and cacheImpl = "\<lparr>cache = [''k'' \<mapsto> \<lparr>value' = Some [1::int], expiryTime = 10\<rparr>]\<rparr>"
       and key = "''k''" and now = 7]
    ttl_not_positive
    [where ttl = "- 1" and cacheImpl = "\<lparr>cache = Map.empty\<rparr>" and key = "''k''" and now = 7
       and val = "Some [1::int]" and fType = TInt]
    ttl_not_positive
    [where ttl = 5 and cacheImpl = "\<lparr>cache = Map.empty\<rparr>" and key = "''k''" and now = 7
       and val = "Some [1::int]" and fType = TInt]
    ttl_not_positive
    [where muLockImpl = "\<lparr>lock = None, unlock = None\<rparr>" and ttl = 5
       and cacheImpl = "\<lparr>cache = [''k'' \<mapsto> \<lparr>value' = Some [1::int], expiryTime = 10\<rparr>]\<rparr>"
       and key = "''k''" and now = 7 and fType = TInt]
  by (simp add: MapCacheImpl_Expire_def MapCacheImpl_Set_def MapCacheImpl_Get_def)

text \<open>
  C7 as the claim states it fails: on the local map backend \<open>Set\<close> with the \<open>ttl\<close> 0
  or -1 on an empty table leaves the key in the table. And the remote store backend
  sends a \<open>ttl\<close> of 0 to the store as it sends any other, so over a store that keeps
  what it is given the key is found afterwards.
\<close>

theorem Set_ttl_not_positive_counterexample:
  "cache (snd (MapCacheImpl_Set \<lparr>cache = Map.empty\<rparr> ''k'' (Some [1::int]) 0 5)) ''k''
     = Some \<lparr>value' = Some [1], expiryTime = 5\<rparr>
   \<and> cache (snd (MapCacheImpl_Set \<lparr>cache = Map.empty\<rparr> ''k'' (Some [1::int]) (- 1) 5)) ''k''
     = Some \<lparr>value' = Some [1], expiryTime = 4\<rparr>
   \<and> fst (RedisCacheImpl_Get (NewRedisCacheImpl memoryClient)
        (snd (RedisCacheImpl_Set (NewRedisCacheImpl memoryClient) Map.empty ''k''
           (Some ([] :: int list)) 0))
        ''k'' (TFunc [] []))
     = Inr (Some [], True, None)"
  by (simp add: MapCacheImpl_Set_def RedisCacheImpl_Get_def RedisCacheImpl_Set_def
      NewRedisCacheImpl_def memoryClient_def RedisCacheImpl_Serialize_def json_Marshal_def
      RedisCacheImpl_Deserialize_def json_Unmarshal_empty_array elems_def)

end
